theory Spec2Isabelle
  imports Complex_Main "HOL-Library.AList"
begin

section \<open>JSON values\<close>

text \<open>
  A decoded body is what \<^verbatim>\<open>json.Unmarshal\<close> stores into an \<^verbatim>\<open>interface{}\<close>:
  \<^verbatim>\<open>nil\<close>, \<^verbatim>\<open>bool\<close>, \<^verbatim>\<open>float64\<close>, \<^verbatim>\<open>string\<close>, \<^verbatim>\<open>[]interface{}\<close> or
  \<^verbatim>\<open>map[string]interface{}\<close>. A decoded \<^verbatim>\<open>float64\<close> is finite, and finite floats compare
  with \<^verbatim>\<open>==\<close> exactly as the rationals they denote, so a number is a \<^typ>\<open>rat\<close>.
  A Go map is an association list; Go never holds two entries for one key, which is the
  predicate \<open>wf\<close> below, and \<^verbatim>\<open>range\<close> over a map visits the entries in list order (one of
  the orders Go may choose).
\<close>

datatype json =
    JNull
  | JBool bool
  | JNumber rat
  | JString string
  | JArray "json list"
  | JObject "(string \<times> json) list"

fun wf :: "json \<Rightarrow> bool" where
  "wf (JObject m) = (distinct (map fst m) \<and> list_all (\<lambda>(k, v). wf v) m)"
| "wf (JArray xs) = list_all wf xs"
| "wf v = True"

text \<open>\<^verbatim>\<open>m[k]\<close> as an expression: the zero value \<^verbatim>\<open>nil\<close> when the key is missing.\<close>

definition index_map :: "(string \<times> json) list \<Rightarrow> string \<Rightarrow> json" where
  "index_map m k = (case map_of m k of Some v \<Rightarrow> v | None \<Rightarrow> JNull)"

subsection \<open>clone and deepEqual\<close>

fun clone :: "json \<Rightarrow> json" where
  "clone (JObject val) = JObject (map (\<lambda>(k, v2). (k, clone v2)) val)"
| "clone (JArray val) = JArray (map clone val)"
| "clone v = v"

text \<open>
  \<^verbatim>\<open>deepEqual\<close>: each loop returns false at the first difference and true otherwise, which
  is the conjunction over the entries. In the default case \<^verbatim>\<open>av == b\<close> compares a scalar
  with any value; interfaces of different dynamic type are unequal.
\<close>

fun deepEqual :: "json \<Rightarrow> json \<Rightarrow> bool" where
  "deepEqual (JObject av) b =
     (case b of
        JObject bv \<Rightarrow>
          length av = length bv \<and> list_all (\<lambda>(k, v). deepEqual v (index_map bv k)) av
      | _ \<Rightarrow> False)"
| "deepEqual (JArray av) b =
     (case b of
        JArray bv \<Rightarrow> length av = length bv \<and> list_all2 deepEqual av bv
      | _ \<Rightarrow> False)"
| "deepEqual a b = (a = b)"

section \<open>Paths\<close>

text \<open>
  \<^verbatim>\<open>strings.Split(path, ".")\<close>: the pieces between the dots; a path without a dot, the
  empty path included, is one piece.
\<close>

fun split_dot :: "string \<Rightarrow> string list" where
  "split_dot [] = [[]]"
| "split_dot (c # cs) =
     (if c = CHR ''.'' then [] # split_dot cs
      else (case split_dot cs of [] \<Rightarrow> [[c]] | w # ws \<Rightarrow> (c # w) # ws))"

text \<open>
  \<^verbatim>\<open>strconv.Atoi\<close> (Go standard library, 64-bit \<^verbatim>\<open>int\<close>): an optional sign, then one or
  more decimal digits, and the value must fit the \<^verbatim>\<open>int\<close>; everything else is an error.
\<close>

definition isDigit :: "char \<Rightarrow> bool" where
  "isDigit c = (48 \<le> (of_char c :: nat) \<and> (of_char c :: nat) \<le> 57)"

definition digitVal :: "char \<Rightarrow> int" where
  "digitVal c = int (of_char c) - 48"

definition Atoi :: "string \<Rightarrow> int option" where
  "Atoi s =
     (let (neg, ds) =
            (case s of
               [] \<Rightarrow> (False, [])
             | c # cs \<Rightarrow>
                 if c = CHR ''-'' then (True, cs)
                 else if c = CHR ''+'' then (False, cs)
                 else (False, s))
      in if ds = [] \<or> \<not> list_all isDigit ds then None
         else (let n = foldl (\<lambda>a c. a * 10 + digitVal c) 0 ds;
                   r = (if neg then - n else n)
               in if r < - (2 ^ 63) \<or> 2 ^ 63 - 1 < r then None else Some r))"

section \<open>Targets\<close>

text \<open>
  A target of the source is three closures over the container that holds the slot and
  over the \<^verbatim>\<open>setter\<close> of that container, which writes it back into its parent and so on up
  to the root. The decoded tree shares no node, so a captured container is identified by
  its access path from the root: \<open>loc\<close>. \<open>fetch\<close> reads the container as it is now in the
  tree, \<open>store\<close> runs the setter chain. The three kinds of slot are the three groups of
  closures \<^verbatim>\<open>walkTargets\<close> builds: an object key (wildcard or literal), an array element
  reached by a wildcard, and an array element named by a number, whose \<^verbatim>\<open>set\<close> grows the
  array.

  \<open>None\<close> from \<open>fetch\<close>, \<open>store\<close>, \<open>tset\<close> or \<open>tdel\<close> says that the path no longer leads to
  a slot of the captured kind: an index out of range (a panic in Go) or a container that
  left the tree.
\<close>

datatype sel = AtKey string | AtIndex nat

type_synonym loc = "sel list"

datatype slot = Key string | Elem nat | Index nat

datatype target = TargetAt loc slot

fun fetch :: "loc \<Rightarrow> json \<Rightarrow> json option" where
  "fetch [] current = Some current"
| "fetch (AtKey k # l) current =
     (case current of
        JObject obj \<Rightarrow> (case map_of obj k of Some val \<Rightarrow> fetch l val | None \<Rightarrow> None)
      | _ \<Rightarrow> None)"
| "fetch (AtIndex i # l) current =
     (case current of
        JArray v \<Rightarrow> (if i < length v then fetch l (v ! i) else None)
      | _ \<Rightarrow> None)"

fun store :: "loc \<Rightarrow> json \<Rightarrow> json \<Rightarrow> json option" where
  "store [] newVal current = Some newVal"
| "store (AtKey k # l) newVal current =
     (case current of
        JObject obj \<Rightarrow>
          (case map_of obj k of
             Some val \<Rightarrow> map_option (\<lambda>val'. JObject (AList.update k val' obj)) (store l newVal val)
           | None \<Rightarrow> None)
      | _ \<Rightarrow> None)"
| "store (AtIndex i # l) newVal current =
     (case current of
        JArray v \<Rightarrow>
          (if i < length v then map_option (\<lambda>val'. JArray (v[i := val'])) (store l newVal (v ! i))
           else None)
      | _ \<Rightarrow> None)"

text \<open>\<^verbatim>\<open>ensureIndex\<close>: \<^verbatim>\<open>make\<close> gives \<open>idx + 1\<close> nils and \<^verbatim>\<open>copy\<close> overwrites the first
  \<open>len(arr)\<close> of them.\<close>

definition ensureIndex :: "json list \<Rightarrow> nat \<Rightarrow> json list" where
  "ensureIndex arr idx =
     (if idx < length arr then arr
      else arr @ drop (length arr) (replicate (idx + 1) JNull))"

fun slot_get :: "slot \<Rightarrow> json \<Rightarrow> json option" where
  "slot_get (Key key) (JObject v) = map_of v key"
| "slot_get (Elem idx) (JArray v) = (if idx < length v then Some (v ! idx) else None)"
| "slot_get (Index idx) (JArray arr) = (if idx < length arr then Some (arr ! idx) else None)"
| "slot_get s c = None"

fun slot_set :: "slot \<Rightarrow> json \<Rightarrow> json \<Rightarrow> json option" where
  "slot_set (Key key) newVal (JObject v) = Some (JObject (AList.update key newVal v))"
| "slot_set (Elem idx) newVal (JArray v) =
     (if idx < length v then Some (JArray (v[idx := newVal])) else None)"
| "slot_set (Index idx) newVal (JArray arr) = Some (JArray ((ensureIndex arr idx)[idx := newVal]))"
| "slot_set s newVal c = None"

fun slot_del :: "slot \<Rightarrow> json \<Rightarrow> json option option" where
  "slot_del (Key key) (JObject v) =
     Some (if map_of v key \<noteq> None then Some (JObject (AList.delete key v)) else None)"
| "slot_del (Elem idx) (JArray v) =
     Some (if idx < length v then Some (JArray (take idx v @ drop (idx + 1) v)) else None)"
| "slot_del (Index idx) (JArray arr) =
     Some (if idx < length arr then Some (JArray (take idx arr @ drop (idx + 1) arr)) else None)"
| "slot_del s c = None"

fun tget :: "target \<Rightarrow> json \<Rightarrow> json option" where
  "tget (TargetAt l s) rt = (case fetch l rt of Some c \<Rightarrow> slot_get s c | None \<Rightarrow> None)"

fun tset :: "target \<Rightarrow> json \<Rightarrow> json \<Rightarrow> json option" where
  "tset (TargetAt l s) newVal rt =
     (case fetch l rt of
        Some c \<Rightarrow> (case slot_set s newVal c of Some c' \<Rightarrow> store l c' rt | None \<Rightarrow> None)
      | None \<Rightarrow> None)"

text \<open>\<open>tdel\<close> returns the tree and what \<^verbatim>\<open>del()\<close> returns.\<close>

fun tdel :: "target \<Rightarrow> json \<Rightarrow> (json \<times> bool) option" where
  "tdel (TargetAt l s) rt =
     (case fetch l rt of
        Some c \<Rightarrow>
          (case slot_del s c of
             Some (Some c') \<Rightarrow> map_option (\<lambda>r. (r, True)) (store l c' rt)
           | Some None \<Rightarrow> Some (rt, False)
           | None \<Rightarrow> None)
      | None \<Rightarrow> None)"

subsection \<open>walkTargets and findTargets\<close>

text \<open>The parameter \<open>setter\<close> is the access path of \<open>current\<close>; the variable \<open>rt\<close> is the source's \<^verbatim>\<open>root\<close>.\<close>

fun walkTargets :: "json \<Rightarrow> loc \<Rightarrow> string list \<Rightarrow> target list" where
  "walkTargets current setter [] = []"
| "walkTargets current setter (seg # segments) =
     (let last = (segments = []) in
      if seg = ''*'' then
        (case current of
           JArray v \<Rightarrow>
             concat (map (\<lambda>i. if last then [TargetAt setter (Elem i)]
                               else walkTargets (v ! i) (setter @ [AtIndex i]) segments)
                         [0..<length v])
         | JObject v \<Rightarrow>
             concat (map (\<lambda>(k, val). if last then [TargetAt setter (Key k)]
                                      else walkTargets val (setter @ [AtKey k]) segments)
                         v)
         | _ \<Rightarrow> [])
      else
        (case Atoi seg of
           Some idx \<Rightarrow>
             (case current of
                JArray arr \<Rightarrow>
                  if 0 \<le> idx then
                    (if last then [TargetAt setter (Index (nat idx))]
                     else if nat idx < length arr
                          then walkTargets (arr ! nat idx) (setter @ [AtIndex (nat idx)]) segments
                          else [])
                  else []
              | _ \<Rightarrow> [])
         | None \<Rightarrow>
             (case current of
                JObject obj \<Rightarrow>
                  if last then [TargetAt setter (Key seg)]
                  else (case map_of obj seg of
                          Some val \<Rightarrow> walkTargets val (setter @ [AtKey seg]) segments
                        | None \<Rightarrow> [])
              | _ \<Rightarrow> [])))"

definition findTargets :: "json \<Rightarrow> string \<Rightarrow> target list" where
  "findTargets rt path = walkTargets rt [] (split_dot path)"

section \<open>Actions\<close>

text \<open>
  The regular expression engine is Go's \<^verbatim>\<open>regexp\<close> package. A compiled expression is
  the pair of the two methods the actions call; \<^verbatim>\<open>MatchString\<close> holds exactly when
  \<^verbatim>\<open>FindStringSubmatchIndex\<close> finds a match.
\<close>

record regexp =
  FindStringSubmatchIndex :: "string \<Rightarrow> int list option"
  ExpandString :: "string \<Rightarrow> string \<Rightarrow> int list \<Rightarrow> string"

definition MatchString :: "regexp \<Rightarrow> string \<Rightarrow> bool" where
  "MatchString re str = (FindStringSubmatchIndex re str \<noteq> None)"

datatype error =
    EmptyValue string string
  | InvalidJSON string string
  | RegexRequired string string
  | InvalidRegex string string
  | ReplacementRequired string
  | TargetRequired string
  | ValueMustBeObject string string
  | UnsupportedType string
  | InvalidWhen string
  | Detached

subsection \<open>applySet\<close>

fun setTargets :: "target list \<Rightarrow> json \<Rightarrow> json \<Rightarrow> json option" where
  "setTargets [] val rt = Some rt"
| "setTargets (t # ts) val rt =
     (case tset t (clone val) rt of Some rt' \<Rightarrow> setTargets ts val rt' | None \<Rightarrow> None)"

definition applySet :: "json \<Rightarrow> string \<Rightarrow> json \<Rightarrow> error + (bool \<times> json)" where
  "applySet rt path val =
     (let targets = findTargets rt path in
      if targets = [] then Inr (False, rt)
      else (case setTargets targets val rt of
              Some rt' \<Rightarrow> Inr (True, rt')
            | None \<Rightarrow> Inl Detached))"

subsection \<open>applyMerge\<close>

text \<open>The loop over the keys of \<open>src\<close>, on the map \<open>dst\<close> and the flag \<open>changed\<close>.\<close>

fun mergeKeys ::
  "(string \<times> json) list \<Rightarrow> (string \<times> json) list \<Rightarrow> bool \<Rightarrow> (string \<times> json) list \<times> bool" where
  "mergeKeys [] dst changed = (dst, changed)"
| "mergeKeys ((k, v) # src) dst changed =
     (case map_of dst k of
        Some current \<Rightarrow>
          if \<not> deepEqual current v then mergeKeys src (AList.update k (clone v) dst) True
          else mergeKeys src dst changed
      | None \<Rightarrow> mergeKeys src (AList.update k (clone v) dst) True)"

text \<open>
  The body of the loop over the targets. \<open>dst\<close> is the map that sits in the tree, so the
  writes \<^verbatim>\<open>dst[k] = clone(v)\<close> land in the tree: the model writes the merged map back
  through the target.
\<close>

definition mergeTarget ::
  "(string \<times> json) list \<Rightarrow> target \<Rightarrow> json \<Rightarrow> bool \<Rightarrow> (json \<times> bool) option" where
  "mergeTarget src t rt changed =
     (case (case tget t rt of
              Some dstVal \<Rightarrow>
                if dstVal = JNull then map_option (Pair (JObject [])) (tset t (JObject []) rt)
                else Some (dstVal, rt)
            | None \<Rightarrow> map_option (Pair (JObject [])) (tset t (JObject []) rt)) of
        None \<Rightarrow> None
      | Some (dstVal, rt1) \<Rightarrow>
          (case dstVal of
             JObject dst \<Rightarrow>
               (case mergeKeys src dst changed of
                  (dst', changed') \<Rightarrow>
                    map_option (\<lambda>rt2. (rt2, changed')) (tset t (JObject dst') rt1))
           | _ \<Rightarrow> Some (rt1, changed)))"

fun mergeTargets ::
  "(string \<times> json) list \<Rightarrow> target list \<Rightarrow> json \<Rightarrow> bool \<Rightarrow> (json \<times> bool) option" where
  "mergeTargets src [] rt changed = Some (rt, changed)"
| "mergeTargets src (t # ts) rt changed =
     (case mergeTarget src t rt changed of
        Some (rt', changed') \<Rightarrow> mergeTargets src ts rt' changed'
      | None \<Rightarrow> None)"

definition applyMerge :: "json \<Rightarrow> string \<Rightarrow> json \<Rightarrow> error + (bool \<times> json)" where
  "applyMerge rt path val =
     (let targets = findTargets rt path in
      if targets = [] then Inr (False, rt)
      else (case val of
              JObject src \<Rightarrow>
                (case mergeTargets src targets rt False of
                   Some (rt', changed) \<Rightarrow> Inr (changed, rt')
                 | None \<Rightarrow> Inl Detached)
            | _ \<Rightarrow> Inl (ValueMustBeObject ''merge'' path)))"

subsection \<open>applyDelete\<close>

fun deleteTargets :: "target list \<Rightarrow> json \<Rightarrow> bool \<Rightarrow> (json \<times> bool) option" where
  "deleteTargets [] rt changed = Some (rt, changed)"
| "deleteTargets (t # ts) rt changed =
     (case tdel t rt of
        Some (rt', deleted) \<Rightarrow> deleteTargets ts rt' (if deleted then True else changed)
      | None \<Rightarrow> None)"

definition applyDelete :: "json \<Rightarrow> string \<Rightarrow> error + (bool \<times> json)" where
  "applyDelete rt path =
     (let targets = findTargets rt path in
      if targets = [] then Inr (False, rt)
      else (case deleteTargets targets rt False of
              Some (rt', changed) \<Rightarrow> Inr (changed, rt')
            | None \<Rightarrow> Inl Detached))"

subsection \<open>applyTransformArray\<close>

text \<open>The loop over the items of one array: the array \<open>out\<close> and the flag
  \<open>targetChanged\<close>.\<close>

fun transformItems :: "regexp \<Rightarrow> string list \<Rightarrow> json list \<Rightarrow> json list \<times> bool" where
  "transformItems re replacements [] = ([], False)"
| "transformItems re replacements (item # arr) =
     (case transformItems re replacements arr of
        (out, targetChanged) \<Rightarrow>
          (case item of
             JString str \<Rightarrow>
               (case FindStringSubmatchIndex re str of
                  None \<Rightarrow> (JString str # out, targetChanged)
                | Some indices \<Rightarrow>
                    (map (\<lambda>tmpl. JString (ExpandString re tmpl str indices)) replacements @ out,
                     True))
           | _ \<Rightarrow> (item # out, targetChanged)))"

fun transformTargets ::
  "regexp \<Rightarrow> string list \<Rightarrow> target list \<Rightarrow> json \<Rightarrow> bool \<Rightarrow> (json \<times> bool) option" where
  "transformTargets re replacements [] rt mutated = Some (rt, mutated)"
| "transformTargets re replacements (t # ts) rt mutated =
     (case tget t rt of
        Some (JArray arr) \<Rightarrow>
          (case transformItems re replacements arr of
             (out, targetChanged) \<Rightarrow>
               if targetChanged then
                 (case tset t (JArray out) rt of
                    Some rt' \<Rightarrow> transformTargets re replacements ts rt' True
                  | None \<Rightarrow> None)
               else transformTargets re replacements ts rt mutated)
      | _ \<Rightarrow> transformTargets re replacements ts rt mutated)"

definition applyTransformArray ::
  "json \<Rightarrow> string \<Rightarrow> regexp \<Rightarrow> string list \<Rightarrow> error + (bool \<times> json)" where
  "applyTransformArray rt path re replacements =
     (let targets = findTargets rt path in
      if targets = [] then Inr (False, rt)
      else (case transformTargets re replacements targets rt False of
              Some (rt', mutated) \<Rightarrow> Inr (mutated, rt')
            | None \<Rightarrow> Inl Detached))"

subsection \<open>applyMergeIfMatch\<close>

fun matchItems :: "regexp \<Rightarrow> json list \<Rightarrow> bool" where
  "matchItems re [] = False"
| "matchItems re (item # arr) =
     (case item of
        JString str \<Rightarrow> if MatchString re str then True else matchItems re arr
      | _ \<Rightarrow> matchItems re arr)"

fun matchSources :: "regexp \<Rightarrow> target list \<Rightarrow> json \<Rightarrow> bool" where
  "matchSources re [] rt = False"
| "matchSources re (s # sources) rt =
     (case tget s rt of
        Some (JArray arr) \<Rightarrow> if matchItems re arr then True else matchSources re sources rt
      | _ \<Rightarrow> matchSources re sources rt)"

definition applyMergeIfMatch ::
  "json \<Rightarrow> string \<Rightarrow> string \<Rightarrow> regexp \<Rightarrow> json \<Rightarrow> error + (bool \<times> json)" where
  "applyMergeIfMatch rt sourcePath targetPath re val =
     (let sources = findTargets rt sourcePath;
          matched = matchSources re sources rt
      in if \<not> matched then Inr (False, rt) else applyMerge rt targetPath val)"

section \<open>Compiling and running an action list\<close>

text \<open>
  \<^verbatim>\<open>json.Unmarshal\<close>, \<^verbatim>\<open>regexp.Compile\<close> and the provisioning of a \<^verbatim>\<open>when\<close> expression
  belong to libraries: they are parameters, each returning \<open>None\<close> where the library
  returns an error. A matcher is a predicate on the request, of any type \<open>'r\<close>.
  \<^verbatim>\<open>Value\<close> is the raw text of the configured value; the nil \<^verbatim>\<open>compiledValue\<close> of an
  action not yet compiled is \<open>JNull\<close>.
\<close>

record 'r env =
  Unmarshal :: "string \<Rightarrow> json option"
  RegexpCompile :: "string \<Rightarrow> regexp option"
  Provision :: "string \<Rightarrow> ('r \<Rightarrow> bool) option"

record 'r action =
  Type :: string
  Path :: string
  Value :: string
  Regex :: string
  Replacements :: "string list"
  Target :: string
  When :: string
  compiledRegex :: "regexp option"
  compiledValue :: json
  matcher :: "('r \<Rightarrow> bool) option"

text \<open>\<^verbatim>\<open>strings.TrimSpace(s) != ""\<close> on ASCII text: some character is not white space.\<close>

definition isSpace :: "char \<Rightarrow> bool" where
  "isSpace c = ((of_char c :: nat) \<in> {9, 10, 11, 12, 13, 32})"

definition TrimSpace_nonempty :: "string \<Rightarrow> bool" where
  "TrimSpace_nonempty s = (\<not> list_all isSpace s)"

text \<open>The \<^verbatim>\<open>switch\<close> of \<^verbatim>\<open>compile\<close>.\<close>

definition compileType :: "'r env \<Rightarrow> 'r action \<Rightarrow> error + 'r action" where
  "compileType e a =
     (if Type a = ''set'' \<or> Type a = ''merge'' then
        (if length (Value a) = 0 then Inl (EmptyValue (Type a) (Path a))
         else (case Unmarshal e (Value a) of
                 None \<Rightarrow> Inl (InvalidJSON (Type a) (Path a))
               | Some v \<Rightarrow> Inr (a\<lparr>compiledValue := v\<rparr>)))
      else if Type a = ''delete'' then Inr a
      else if Type a = ''transform_array'' then
        (if Regex a = [] then Inl (RegexRequired ''transform_array'' (Path a))
         else (case RegexpCompile e (Regex a) of
                 None \<Rightarrow> Inl (InvalidRegex ''transform_array'' (Path a))
               | Some re \<Rightarrow>
                   if length (Replacements a) = 0 then Inl (ReplacementRequired (Path a))
                   else Inr (a\<lparr>compiledRegex := Some re\<rparr>)))
      else if Type a = ''merge_if_match'' then
        (if Regex a = [] then Inl (RegexRequired ''merge_if_match'' (Path a))
         else if Target a = [] then Inl (TargetRequired (Path a))
         else (case RegexpCompile e (Regex a) of
                 None \<Rightarrow> Inl (InvalidRegex ''merge_if_match'' (Path a))
               | Some re \<Rightarrow>
                   (case Unmarshal e (Value a) of
                      None \<Rightarrow> Inl (InvalidJSON ''merge_if_match'' (Path a))
                    | Some v \<Rightarrow>
                        (case v of
                           JObject m \<Rightarrow> Inr (a\<lparr>compiledRegex := Some re, compiledValue := v\<rparr>)
                         | _ \<Rightarrow> Inl (ValueMustBeObject ''merge_if_match'' (Path a))))))
      else Inl (UnsupportedType (Type a)))"

definition compile :: "'r env \<Rightarrow> 'r action \<Rightarrow> error + 'r action" where
  "compile e a =
     (case compileType e a of
        Inl err \<Rightarrow> Inl err
      | Inr a' \<Rightarrow>
          if TrimSpace_nonempty (When a') then
            (case Provision e (When a') of
               None \<Rightarrow> Inl (InvalidWhen (Path a'))
             | Some me \<Rightarrow> Inr (a'\<lparr>matcher := Some me\<rparr>))
          else Inr a')"

text \<open>\<^verbatim>\<open>Provision\<close> compiles the actions in order and stops at the first error.\<close>

fun compileAll :: "'r env \<Rightarrow> 'r action list \<Rightarrow> error + 'r action list" where
  "compileAll e [] = Inr []"
| "compileAll e (a # as) =
     (case compile e a of
        Inl err \<Rightarrow> Inl err
      | Inr a' \<Rightarrow> (case compileAll e as of Inl err \<Rightarrow> Inl err | Inr as' \<Rightarrow> Inr (a' # as')))"

text \<open>One action of the loop of \<^verbatim>\<open>applyActions\<close>, when its matcher lets it run. A
  \<^verbatim>\<open>transform_array\<close> action that was compiled has its regular expression.\<close>

definition applyAction :: "json \<Rightarrow> 'r action \<Rightarrow> error + (bool \<times> json)" where
  "applyAction rt act =
     (if Type act = ''set'' then applySet rt (Path act) (compiledValue act)
      else if Type act = ''merge'' then applyMerge rt (Path act) (compiledValue act)
      else if Type act = ''delete'' then applyDelete rt (Path act)
      else if Type act = ''transform_array'' then
        (case compiledRegex act of
           Some re \<Rightarrow> applyTransformArray rt (Path act) re (Replacements act)
         | None \<Rightarrow> Inl Detached)
      else if Type act = ''merge_if_match'' then
        (case compiledRegex act of
           Some re \<Rightarrow> applyMergeIfMatch rt (Path act) (Target act) re (compiledValue act)
         | None \<Rightarrow> Inl Detached)
      else Inl (UnsupportedType (Type act)))"

text \<open>\<^verbatim>\<open>applyActions\<close> returns the flag and the error; the tree is the one the actions
  before the error left.\<close>

fun applyActions ::
  "json \<Rightarrow> 'r action list \<Rightarrow> 'r \<Rightarrow> bool \<Rightarrow> bool \<times> error option \<times> json" where
  "applyActions rt [] r mutated = (mutated, None, rt)"
| "applyActions rt (act # actions) r mutated =
     (if (case matcher act of Some m \<Rightarrow> \<not> m r | None \<Rightarrow> False)
      then applyActions rt actions r mutated
      else (case applyAction rt act of
              Inl err \<Rightarrow> (mutated, Some err, rt)
            | Inr (changed, rt') \<Rightarrow> applyActions rt' actions r (mutated \<or> changed)))"

section \<open>Inputs used by the closed theorems\<close>

fun isObject :: "json \<Rightarrow> bool" where
  "isObject (JObject m) = True"
| "isObject v = False"

text \<open>A decoder that knows the text \<^verbatim>\<open>5\<close>, and a \<^verbatim>\<open>merge\<close> action configured with it.\<close>

definition env5 :: "unit env" where
  "env5 = \<lparr>Unmarshal = (\<lambda>s. if s = ''5'' then Some (JNumber 5) else None),
            RegexpCompile = (\<lambda>s. None), Provision = (\<lambda>s. None)\<rparr>"

definition act5 :: "unit action" where
  "act5 = \<lparr>Type = ''merge'', Path = ''a'', Value = ''5'', Regex = [], Replacements = [],
            Target = [], When = [], compiledRegex = None, compiledValue = JNull,
            matcher = None\<rparr>"







section \<open>Properties\<close>

subsection \<open>Numeric tokens\<close>

lemma Atoi_star: "Atoi ''*'' = None"
  by (simp add: Atoi_def isDigit_def)

lemma Atoi_not_star: "Atoi seg = Some idx \<Longrightarrow> seg \<noteq> ''*''"
  using Atoi_star by auto

text \<open>
  C1, as the code has it. A token that \<^verbatim>\<open>strconv.Atoi\<close> accepts is only ever an array
  index: against an Object it resolves to no target at all, whatever follows it and
  whether or not the Object holds a key of that spelling. A token that \<^verbatim>\<open>Atoi\<close>
  rejects, other than the wildcard, is a literal key: as the last segment against an
  Object it yields the one target bound to that key, whose \<^verbatim>\<open>get\<close> is the lookup of
  the key.
\<close>

theorem numeric_token_on_object:
  "(Atoi seg = Some idx \<longrightarrow> walkTargets (JObject obj) setter (seg # segments) = [])
   \<and> (Atoi seg = None \<longrightarrow> seg \<noteq> ''*'' \<longrightarrow>
        walkTargets (JObject obj) setter [seg] = [TargetAt setter (Key seg)]
        \<and> tget (TargetAt [] (Key seg)) (JObject obj) = map_of obj seg)"
  using Atoi_not_star [of seg idx] by (simp add: Let_def)

theorem numeric_token_on_object_witness:
  "Atoi ''5'' = Some 5
   \<and> walkTargets (JObject [(''5'', JNumber 1)]) [] [''5''] = []
   \<and> Atoi ''k5'' = None
   \<and> walkTargets (JObject [(''k5'', JNumber 1)]) [] [''k5''] = [TargetAt [] (Key ''k5'')]
   \<and> tget (TargetAt [] (Key ''k5'')) (JObject [(''k5'', JNumber 1)]) = Some (JNumber 1)"
proof -
  have a: "Atoi ''5'' = Some 5"
    by (simp add: Atoi_def isDigit_def digitVal_def)
  have b: "Atoi ''k5'' = None"
    by (simp add: Atoi_def isDigit_def)
  have c: "''k5'' \<noteq> ''*''"
    by simp
  from numeric_token_on_object [of "''5''" 5 "[(''5'', JNumber 1)]" "[]" "[]"] a
  have 1: "walkTargets (JObject [(''5'', JNumber 1)]) [] [''5''] = []"
    by blast
  from numeric_token_on_object [of "''k5''" 0 "[(''k5'', JNumber 1)]" "[]" "[]"] b c
  have 2: "walkTargets (JObject [(''k5'', JNumber 1)]) [] [''k5''] = [TargetAt [] (Key ''k5'')]
     \<and> tget (TargetAt [] (Key ''k5'')) (JObject [(''k5'', JNumber 1)])
         = map_of [(''k5'', JNumber 1)] ''k5''"
    by blast
  from a b 1 2 show ?thesis
    by simp
qed

text \<open>
  C1 as stated fails: the Object \<^verbatim>\<open>{"5": 1}\<close> holds the key \<^verbatim>\<open>5\<close>, and the path \<^verbatim>\<open>5\<close>
  does not resolve to the target bound to that key.
\<close>

theorem numeric_key_counterexample:
  "map_of [(''5'', JNumber 1)] ''5'' = Some (JNumber 1)
   \<and> TargetAt [] (Key ''5'') \<notin> set (findTargets (JObject [(''5'', JNumber 1)]) ''5'')"
  by (simp add: findTargets_def Atoi_def isDigit_def digitVal_def)

subsection \<open>Compile-time checks of merge\<close>

text \<open>
  C2 at the failing input: the \<^verbatim>\<open>merge\<close> action with the value \<^verbatim>\<open>5\<close> compiles, and
  running the compiled list on \<^verbatim>\<open>{"a": 1}\<close> returns the error about the merge value.
\<close>

theorem merge_non_object_compiles:
  "compileAll env5 [act5] = Inr [act5\<lparr>compiledValue := JNumber 5\<rparr>]
   \<and> applyActions (JObject [(''a'', JNumber 1)]) [act5\<lparr>compiledValue := JNumber 5\<rparr>] () False
       = (False, Some (ValueMustBeObject ''merge'' ''a''), JObject [(''a'', JNumber 1)])"
  by (simp add: compile_def compileType_def env5_def act5_def TrimSpace_nonempty_def
      applyAction_def applyMerge_def findTargets_def Atoi_def isDigit_def)

subsection \<open>deepEqual\<close>

text \<open>
  C3 at the failing input: \<^verbatim>\<open>{"a": null}\<close> and \<^verbatim>\<open>{"b": 1}\<close> have different key sets and
  \<^verbatim>\<open>deepEqual\<close> returns true, because the missing key reads as nil. A merge of
  \<^verbatim>\<open>{"opt": {"b": 1}}\<close> into \<^verbatim>\<open>{"opt": {"a": null}}\<close> therefore writes nothing.
\<close>

theorem deepEqual_missing_key:
  "deepEqual (JObject [(''a'', JNull)]) (JObject [(''b'', JNumber 1)])
   \<and> set (map fst [(''a'', JNull)]) \<noteq> set (map fst [(''b'', JNumber 1)])
   \<and> applyMerge (JObject [(''t'', JObject [(''opt'', JObject [(''a'', JNull)])])]) ''t''
        (JObject [(''opt'', JObject [(''b'', JNumber 1)])])
      = Inr (False, JObject [(''t'', JObject [(''opt'', JObject [(''a'', JNull)])])])"
  by (simp add: index_map_def applyMerge_def findTargets_def Atoi_def isDigit_def
      mergeTarget_def)

subsection \<open>Paths that resolve to nothing\<close>

text \<open>
  C6: when the path resolves to zero targets, Set, Merge, Delete and TransformArray each
  return \<open>changed = false\<close> with no error and the tree as it was.
\<close>

theorem zero_targets_noop:
  assumes "findTargets rt path = []"
  shows "applySet rt path val = Inr (False, rt)
       \<and> applyMerge rt path val = Inr (False, rt)
       \<and> applyDelete rt path = Inr (False, rt)
       \<and> applyTransformArray rt path re replacements = Inr (False, rt)"
  using assms
  by (simp add: applySet_def applyMerge_def applyDelete_def applyTransformArray_def)

theorem zero_targets_noop_witness:
  "findTargets (JObject [(''a'', JNumber 1)]) ''b.c'' = []
   \<and> applySet (JObject [(''a'', JNumber 1)]) ''b.c'' (JNumber 2)
       = Inr (False, JObject [(''a'', JNumber 1)])
   \<and> applyMerge (JObject [(''a'', JNumber 1)]) ''b.c'' (JObject [(''k'', JNumber 2)])
       = Inr (False, JObject [(''a'', JNumber 1)])
   \<and> applyDelete (JObject [(''a'', JNumber 1)]) ''b.c''
       = Inr (False, JObject [(''a'', JNumber 1)])
   \<and> applyTransformArray (JObject [(''a'', JNumber 1)]) ''b.c''
        \<lparr>FindStringSubmatchIndex = (\<lambda>s. None), ExpandString = (\<lambda>t s m. t)\<rparr> [''x'']
       = Inr (False, JObject [(''a'', JNumber 1)])"
proof -
  have h: "findTargets (JObject [(''a'', JNumber 1)]) ''b.c'' = []"
    by (simp add: findTargets_def Atoi_def isDigit_def)
  have s: "applySet (JObject [(''a'', JNumber 1)]) ''b.c'' (JNumber 2)
       = Inr (False, JObject [(''a'', JNumber 1)])"
    using zero_targets_noop [OF h] by blast
  have m: "applyMerge (JObject [(''a'', JNumber 1)]) ''b.c'' (JObject [(''k'', JNumber 2)])
       = Inr (False, JObject [(''a'', JNumber 1)])"
    using zero_targets_noop [OF h] by blast
  have d: "applyDelete (JObject [(''a'', JNumber 1)]) ''b.c''
       = Inr (False, JObject [(''a'', JNumber 1)])"
    using zero_targets_noop [OF h] by blast
  have t: "applyTransformArray (JObject [(''a'', JNumber 1)]) ''b.c''
        \<lparr>FindStringSubmatchIndex = (\<lambda>s. None), ExpandString = (\<lambda>t s m. t)\<rparr> [''x'']
       = Inr (False, JObject [(''a'', JNumber 1)])"
    using zero_targets_noop [OF h] by blast
  from h s m d t show ?thesis
    by blast
qed

subsection \<open>The run-time check of the merge value\<close>

text \<open>
  C10: with a value that is not an Object, \<^verbatim>\<open>applyMerge\<close> returns \<open>changed = false\<close> and
  no error when the path resolves to zero targets, and the error "value must be an
  object" as soon as there is a target: the check stands after the early return.
\<close>

theorem merge_value_check_needs_target:
  assumes "\<not> isObject val"
  shows "applyMerge rt path val =
           (if findTargets rt path = [] then Inr (False, rt)
            else Inl (ValueMustBeObject ''merge'' path))"
  using assms by (cases val) (simp_all add: applyMerge_def)

theorem merge_value_check_needs_target_witness:
  "\<not> isObject (JNumber 5)
   \<and> applyMerge (JObject [(''b'', JNumber 1)]) ''a.c'' (JNumber 5)
       = Inr (False, JObject [(''b'', JNumber 1)])
   \<and> applyMerge (JObject [(''a'', JNumber 1)]) ''a'' (JNumber 5)
       = Inl (ValueMustBeObject ''merge'' ''a'')"
proof -
  have h: "\<not> isObject (JNumber 5)"
    by simp
  have 1: "findTargets (JObject [(''b'', JNumber 1)]) ''a.c'' = []"
    by (simp add: findTargets_def Atoi_def isDigit_def)
  have 2: "findTargets (JObject [(''a'', JNumber 1)]) ''a'' \<noteq> []"
    by (simp add: findTargets_def Atoi_def isDigit_def)
  show ?thesis
    using h 1 2
      merge_value_check_needs_target [OF h, of "JObject [(''b'', JNumber 1)]" "''a.c''"]
      merge_value_check_needs_target [OF h, of "JObject [(''a'', JNumber 1)]" "''a''"]
    by simp
qed

subsection \<open>Reading and writing through a target\<close>

lemma clone_id: "clone v = v"
proof (induction v)
  case (JObject m)
  have "map (\<lambda>(k, v2). (k, clone v2)) m = map (\<lambda>p. p) m"
    by (rule map_cong) (auto dest: JObject)
  then show ?case by simp
next
  case (JArray xs)
  then show ?case by (simp add: map_idI)
qed simp_all


lemma store_same: "fetch l rt = Some c \<Longrightarrow> store l c rt = Some rt"
proof (induction l rt arbitrary: c rule: fetch.induct)
  case (1 current)
  then show ?case by simp
next
  case (2 k l current)
  then show ?case
    by (auto split: json.splits option.splits simp: update_triv)
next
  case (3 i l current)
  then show ?case
    by (auto split: json.splits option.splits if_splits)
qed



lemma slot_set_same: "slot_get s c = Some x \<Longrightarrow> slot_set s x c = Some c"
  by (cases "(s, c)" rule: slot_get.cases)
     (auto simp: update_triv ensureIndex_def split: if_splits)



lemma tset_same: "tget t rt = Some x \<Longrightarrow> tset t x rt = Some rt"
  by (cases t) (auto split: option.splits simp: slot_set_same store_same)


subsection \<open>Growing an array\<close>




subsection \<open>Merge and destinations that are not Objects\<close>

lemma mergeTarget_skip:
  assumes "tget t rt = Some d" and "d \<noteq> JNull" and "\<not> isObject d"
  shows "mergeTarget src t rt changed = Some (rt, changed)"
  using assms by (cases d) (simp_all add: mergeTarget_def)

lemma mergeTargets_skip_all:
  "\<forall>t \<in> set ts. \<exists>d. tget t rt = Some d \<and> d \<noteq> JNull \<and> \<not> isObject d \<Longrightarrow>
   mergeTargets src ts rt changed = Some (rt, changed)"
  by (induction ts) (auto simp: mergeTarget_skip)

text \<open>
  C4, as the code has it: a target whose value exists and is neither an Object nor Null
  is skipped: the loop body returns the tree and the flag as they were, with no error.
  When every target of the path is of that kind, the action returns \<open>changed = false\<close>
  and the tree unchanged.
\<close>

theorem merge_leaves_non_object:
  "(tget t rt = Some d \<and> d \<noteq> JNull \<and> \<not> isObject d
      \<longrightarrow> mergeTarget src t rt changed = Some (rt, changed))
   \<and> ((\<forall>t \<in> set (findTargets rt path). \<exists>d. tget t rt = Some d \<and> d \<noteq> JNull \<and> \<not> isObject d)
      \<longrightarrow> applyMerge rt path (JObject src) = Inr (False, rt))"
proof (intro conjI impI)
  assume "tget t rt = Some d \<and> d \<noteq> JNull \<and> \<not> isObject d"
  then show "mergeTarget src t rt changed = Some (rt, changed)"
    by (simp add: mergeTarget_skip)
next
  assume "\<forall>t \<in> set (findTargets rt path). \<exists>d. tget t rt = Some d \<and> d \<noteq> JNull \<and> \<not> isObject d"
  from mergeTargets_skip_all [OF this, of src False]
  show "applyMerge rt path (JObject src) = Inr (False, rt)"
    by (simp add: applyMerge_def Let_def)
qed

theorem merge_leaves_non_object_witness:
  "tget (TargetAt [] (Key ''a'')) (JObject [(''a'', JNumber 3)]) = Some (JNumber 3)
   \<and> mergeTarget [(''x'', JNumber 1)] (TargetAt [] (Key ''a'')) (JObject [(''a'', JNumber 3)]) False
       = Some (JObject [(''a'', JNumber 3)], False)
   \<and> applyMerge (JObject [(''a'', JNumber 3)]) ''a'' (JObject [(''x'', JNumber 1)])
       = Inr (False, JObject [(''a'', JNumber 3)])"
proof -
  have g: "tget (TargetAt [] (Key ''a'')) (JObject [(''a'', JNumber 3)]) = Some (JNumber 3)"
    by simp
  have f: "findTargets (JObject [(''a'', JNumber 3)]) ''a'' = [TargetAt [] (Key ''a'')]"
    by (simp add: findTargets_def Atoi_def isDigit_def)
  note th = merge_leaves_non_object [of "TargetAt [] (Key ''a'')" "JObject [(''a'', JNumber 3)]"
      "JNumber 3" "[(''x'', JNumber 1)]" False "''a''"]
  have 1: "mergeTarget [(''x'', JNumber 1)] (TargetAt [] (Key ''a'')) (JObject [(''a'', JNumber 3)]) False
       = Some (JObject [(''a'', JNumber 3)], False)"
    using th g by simp
  have 2: "applyMerge (JObject [(''a'', JNumber 3)]) ''a'' (JObject [(''x'', JNumber 1)])
       = Inr (False, JObject [(''a'', JNumber 3)])"
    using th f g by simp
  from g 1 2 show ?thesis
    by blast
qed

text \<open>
  C4 as stated fails for Null: the code takes a nil value for an absent one, so the
  target \<^verbatim>\<open>a\<close> of \<^verbatim>\<open>{"a": null}\<close> is overwritten with the merged Object.
\<close>

theorem merge_overwrites_null_counterexample:
  "tget (TargetAt [] (Key ''a'')) (JObject [(''a'', JNull)]) = Some JNull
   \<and> findTargets (JObject [(''a'', JNull)]) ''a'' = [TargetAt [] (Key ''a'')]
   \<and> applyMerge (JObject [(''a'', JNull)]) ''a'' (JObject [(''x'', JNumber 1)])
       = Inr (True, JObject [(''a'', JObject [(''x'', JNumber 1)])])"
  by (simp add: applyMerge_def findTargets_def Atoi_def isDigit_def mergeTarget_def)

subsection \<open>TransformArray\<close>











subsection \<open>MergeIfMatch\<close>





end
